theory Spec2Isabelle
  imports Main "HOL-Library.Word" "HOL-Library.Sublist"
begin

section \<open>Data model of the client (client/api.go)\<close>

text \<open>
  Channels and heap objects are identified by addresses. An \<open>event_ref\<close> is the value of
  a Go pointer \<open>*types.Event\<close>: the index of the event in the store. A nil pointer is
  \<open>None\<close> of type \<open>event_ref option\<close>.
\<close>

type_synonym chan_id = nat
type_synonym event_ref = nat
type_synonym err = string

text \<open>
  Modelled from the spec: the struct \<open>types.Event\<close> is declared in package \<open>types\<close>, which
  is not part of the source at hand. Its fields are the ones \<open>createEvent\<close> initialises; the
  delivery counter \<open>Count\<close> is taken to be a Go \<open>int\<close> (64 bits, wrapping on overflow).
\<close>

record event =
  Response :: chan_id
  Type :: string
  Query :: string
  Unsubscribe :: chan_id
  Subscribed :: bool
  Count :: "64 word"

text \<open>
  The three query documents \<open>types.NewBlockSubscriptionQuery\<close>,
  \<open>types.SyncUpdateSubscriptionQuery\<close> and \<open>types.BlockConfirmationSubscriptionQuery\<close> are
  constants of package \<open>types\<close>; they are taken as parameters.
\<close>

record query_docs =
  NewBlockSubscriptionQuery :: string
  SyncUpdateSubscriptionQuery :: string
  BlockConfirmationSubscriptionQuery :: string

definition subscriptionEventsQueries :: "query_docs \<Rightarrow> string \<rightharpoonup> string" where
  "subscriptionEventsQueries q =
     [''NewBlock'' \<mapsto> NewBlockSubscriptionQuery q,
      ''SyncUpdate'' \<mapsto> SyncUpdateSubscriptionQuery q,
      ''BlockConfirmation'' \<mapsto> BlockConfirmationSubscriptionQuery q]"

text \<open>Reading a Go \<open>map[string]string\<close> at a missing key gives the zero value \<open>""\<close>.\<close>

definition map_index :: "(string \<rightharpoonup> string) \<Rightarrow> string \<Rightarrow> string" where
  "map_index m k = (case m k of None \<Rightarrow> [] | Some v \<Rightarrow> v)"

text \<open>
  The store: the allocated events (a pointer is an index into \<open>events\<close>) and the number of
  channels made so far (\<open>make(chan ...)\<close> returns the next unused channel).
\<close>

record store =
  events :: "event list"
  chans :: nat

record hub =
  SubscriptionData :: chan_id

record http_client =
  Timeout :: nat

record client =
  SubscriptionEvents :: "string \<rightharpoonup> event_ref"
  httpClient :: "http_client option"
  Endpoint :: string
  hub :: "hub option"

subsection \<open>createEvent, getEvent, NewClient\<close>

definition createEvent :: "query_docs \<Rightarrow> string \<Rightarrow> store \<Rightarrow> event_ref \<times> store" where
  "createEvent q t s =
     (let response = chans s;
          unsubscribe = chans s + 1;
          ev = \<lparr> Response = response,
                 Type = t,
                 Query = map_index (subscriptionEventsQueries q) t,
                 Unsubscribe = unsubscribe,
                 Subscribed = False,
                 Count = 0 \<rparr>
      in (length (events s), s\<lparr> events := events s @ [ev], chans := chans s + 2 \<rparr>))"

definition getEvent :: "query_docs \<Rightarrow> string \<Rightarrow> client \<times> store \<Rightarrow> event_ref \<times> client \<times> store" where
  "getEvent q t cs =
     (case cs of (c, s) \<Rightarrow>
        (case SubscriptionEvents c t of
           Some event \<Rightarrow> (event, c, s)
         | None \<Rightarrow>
             (case createEvent q t s of (event, s') \<Rightarrow>
                (event, c\<lparr> SubscriptionEvents := (SubscriptionEvents c)(t \<mapsto> event) \<rparr>, s'))))"

fun newSubEvents ::
  "query_docs \<Rightarrow> string list \<Rightarrow> (string \<rightharpoonup> event_ref) \<times> store \<Rightarrow> (string \<rightharpoonup> event_ref) \<times> store" where
  "newSubEvents q [] ms = ms"
| "newSubEvents q (item # items) ms =
     (case ms of (subEvents, s) \<Rightarrow>
        (case createEvent q item s of (event, s') \<Rightarrow>
           newSubEvents q items (subEvents(item \<mapsto> event), s')))"

definition NewClient :: "query_docs \<Rightarrow> string \<Rightarrow> hub option \<Rightarrow> string list \<Rightarrow> store \<Rightarrow> client \<times> store" where
  "NewClient q endpoint h eventsIt s =
     (case newSubEvents q eventsIt (Map.empty, s) of (subEvents, s') \<Rightarrow>
        (\<lparr> SubscriptionEvents = subEvents,
           httpClient = Some \<lparr> Timeout = 5 \<rparr>,
           Endpoint = endpoint,
           hub = h \<rparr>, s'))"

definition NewClientWith ::
  "query_docs \<Rightarrow> http_client option \<Rightarrow> string \<Rightarrow> hub option \<Rightarrow> string list \<Rightarrow> store \<Rightarrow> client \<times> store" where
  "NewClientWith q cl endpoint h eventsIt s =
     (case newSubEvents q eventsIt (Map.empty, s) of (subEvents, s') \<Rightarrow>
        (\<lparr> SubscriptionEvents = subEvents,
           httpClient = cl,
           Endpoint = endpoint,
           hub = h \<rparr>, s'))"

subsection \<open>strings.Replace\<close>

text \<open>
  \<open>strings.Replace(s, old, new, n)\<close> of the Go standard library on byte strings: the first
  \<open>n\<close> non-overlapping occurrences of \<open>old\<close>, found from the left, are replaced by \<open>new\<close>;
  a negative \<open>n\<close> puts no limit on the number of replacements. An empty \<open>old\<close> matches
  before every character and at the end.
\<close>

function strings_Replace :: "string \<Rightarrow> string \<Rightarrow> string \<Rightarrow> int \<Rightarrow> string" where
  "strings_Replace s old new n =
     (if n = 0 then s
      else let n' = (if n < 0 then n else n - 1) in
        (case s of
           [] \<Rightarrow> (if old = [] then new else [])
         | c # cs \<Rightarrow>
             if old = [] then new @ c # strings_Replace cs old new n'
             else if prefix old s then new @ strings_Replace (drop (length old) s) old new n'
             else c # strings_Replace cs old new n))"
  by pat_completeness auto
termination
  by (relation "measure (\<lambda>(s, old, new, n). length s)") auto

section \<open>The subscription engine\<close>

text \<open>
  Modelled from the spec: \<open>types.SubscribeQuery\<close>, \<open>types.SubscribeDataQuery\<close>,
  \<open>types.SubscriptionResponse\<close> and \<open>types.ResponseData\<close> are declared in package
  \<open>types\<close>, which is not part of the source at hand. They carry the fields the engine
  reads and writes; of the decoded message only its \<open>Type\<close> is read, the remainder is
  kept as one opaque field.
\<close>

datatype subscribe_query = SubscribeQuery (sq_Query: string)

datatype subscribe_data_query =
  SubscribeDataQuery (sdq_Type: string) (sdq_Id: string) (sdq_Payload: subscribe_query)

record subscription_response =
  resp_Type :: string
  resp_rest :: string

record response_data =
  Host :: string
  rd_Type :: string
  Data :: subscription_response

text \<open>The zero value of \<open>types.SubscriptionResponse\<close>, as \<open>var m\<close> declares it.\<close>

definition zero_response :: subscription_response where
  "zero_response = \<lparr> resp_Type = [], resp_rest = [] \<rparr>"

text \<open>The lines the engine writes to the log, one constructor per \<open>log\<close> call.\<close>

datatype log_entry =
    LogEventNil
  | LogExitSubscription string
  | LogConnecting string
  | LogDial err
  | LogSubscriptionType string
  | LogSendError err
  | LogReceiveError err
  | LogReceiveType string
  | LogUnsubscribed string string

text \<open>
  What the engine does to the outside world, in program order. A channel send is recorded
  when the engine reaches it; whether it completes is told by the status of the run.
\<close>

datatype action =
    Log log_entry
  | SignalNotify
  | Dial string string
  | JSONSend subscribe_data_query
  | JSONReceive
  | ConnClose
  | ChanSendResponse chan_id response_data
  | ChanReceiveBool chan_id
  | ChanSendBool chan_id bool
  | Sleep nat

text \<open>
  What the outside world does during one iteration of the \<open>for\<close> loop: whether a sender
  waits on \<open>event.Unsubscribe\<close>, whether \<open>ctx.Done()\<close> is closed, the choice the Go runtime
  makes among the ready cases of the \<open>select\<close> (a pseudo-random one), the results of
  \<open>websocket.Dial\<close>, \<open>websocket.JSON.Send\<close> and \<open>websocket.JSON.Receive\<close> (with the
  value of \<open>m\<close> after the call), and whether a receiver takes the values the engine sends
  on the unbuffered channels.
\<close>

record cycle_env =
  unsubscribe_ready :: bool
  ctx_done :: bool
  pick :: nat
  dial_err :: "err option"
  send_err :: "err option"
  receive_err :: "err option"
  received :: subscription_response
  response_taken :: bool
  ack_taken :: bool

datatype select_case = CaseDefault | CaseUnsubscribe | CaseCtxDone

text \<open>
  Go's \<open>select\<close>: the \<open>default\<close> case runs only when no communication can proceed;
  otherwise one of those that can proceed is chosen, by the runtime's pick.
\<close>

definition ready_cases :: "cycle_env \<Rightarrow> select_case list" where
  "ready_cases e =
     (if unsubscribe_ready e then [CaseUnsubscribe] else []) @
     (if ctx_done e then [CaseCtxDone] else [])"

definition select :: "cycle_env \<Rightarrow> select_case" where
  "select e =
     (case ready_cases e of
        [] \<Rightarrow> CaseDefault
      | r # rs \<Rightarrow> (r # rs) ! (pick e mod length (r # rs)))"

text \<open>
  \<open>Running\<close>: the engine is still in its loop (after an iteration: it goes on to the next
  one). \<open>Returned\<close>: \<open>subscribe\<close> has returned. \<open>Blocked\<close>: the engine waits in a channel
  send that no receiver takes.
\<close>

datatype status = Running | Returned | Blocked

text \<open>The \<open>default\<close> case of the \<open>select\<close>: one connection, one send, one receive.\<close>

definition transport_cycle :: "client \<Rightarrow> event \<Rightarrow> cycle_env \<Rightarrow> action list \<times> event \<times> status" where
  "transport_cycle c ev e =
     (let ev1 = ev\<lparr> Subscribed := True \<rparr>;
          url = strings_Replace (Endpoint c) ''http'' ''ws'' (- 1);
          origin = ''http://localhost/'';
          a_dial = [SignalNotify, Log (LogConnecting url), Dial url origin]
      in case dial_err e of
           Some er \<Rightarrow> (a_dial @ [Log (LogDial er)], ev1, Returned)
         | None \<Rightarrow>
             (let d2 = SubscribeDataQuery ''start'' ''1'' (SubscribeQuery (Query ev1));
                  a_send = [Log (LogSubscriptionType (Type ev1)), JSONSend d2] @
                           (case send_err e of Some er2 \<Rightarrow> [Log (LogSendError er2)] | None \<Rightarrow> []);
                  m = received e;
                  a_receive = [JSONReceive] @
                           (case receive_err e of Some er3 \<Rightarrow> [Log (LogReceiveError er3)] | None \<Rightarrow> []) @
                           [ConnClose, Log (LogReceiveType (resp_Type m))];
                  responseData = \<lparr> Host = Endpoint c, rd_Type = Type ev1, Data = m \<rparr>;
                  ev2 = ev1\<lparr> Count := Count ev1 + 1 \<rparr>;
                  a_deliver = (case hub c of
                                 None \<Rightarrow> [ChanSendResponse (Response ev2) responseData]
                               | Some h \<Rightarrow> [ChanSendResponse (SubscriptionData h) responseData])
              in if response_taken e
                 then (a_dial @ a_send @ a_receive @ a_deliver @ [Sleep 1], ev2, Running)
                 else (a_dial @ a_send @ a_receive @ a_deliver, ev2, Blocked)))"

text \<open>One iteration of the \<open>for\<close> loop.\<close>

definition subscribe_iter :: "client \<Rightarrow> event \<Rightarrow> cycle_env \<Rightarrow> action list \<times> event \<times> status" where
  "subscribe_iter c ev e =
     (case select e of
        CaseDefault \<Rightarrow> transport_cycle c ev e
      | CaseUnsubscribe \<Rightarrow>
          ([ChanReceiveBool (Unsubscribe ev),
            Log (LogUnsubscribed (Endpoint c) (Type ev)),
            ChanSendBool (Unsubscribe ev) True],
           ev,
           if ack_taken e then Returned else Blocked)
      | CaseCtxDone \<Rightarrow> ([], ev, Returned))"

text \<open>
  The \<open>for\<close> loop, run against a finite schedule of the outside world, one entry per
  iteration. When the schedule is used up the engine is still \<open>Running\<close>.
\<close>

fun subscribe_loop :: "client \<Rightarrow> event \<Rightarrow> cycle_env list \<Rightarrow> action list \<times> event \<times> status" where
  "subscribe_loop c ev [] = ([], ev, Running)"
| "subscribe_loop c ev (e # es) =
     (case subscribe_iter c ev e of (acts, ev', st) \<Rightarrow>
        if st = Running
        then (case subscribe_loop c ev' es of (acts', ev'', st') \<Rightarrow> (acts @ acts', ev'', st'))
        else (acts, ev', st))"

text \<open>
  \<open>(*Client).subscribe\<close>. The event is a pointer: \<open>None\<close> is nil, \<open>Some r\<close> the address of
  an allocated event (\<open>r < length (events s)\<close>; Go has no dangling pointers). The
  context argument is a valid context; what the engine sees of it is \<open>ctx_done\<close> in each
  entry of the schedule. The deferred log call runs when the function returns.
\<close>

definition subscribe ::
  "client \<Rightarrow> store \<Rightarrow> event_ref option \<Rightarrow> cycle_env list \<Rightarrow> action list \<times> store \<times> status" where
  "subscribe c s event envs =
     (case event of
        None \<Rightarrow> ([Log LogEventNil], s, Returned)
      | Some r \<Rightarrow>
          (case subscribe_loop c (events s ! r) envs of (acts, ev', st) \<Rightarrow>
             (acts @ (if st = Returned then [Log (LogExitSubscription (Type ev'))] else []),
              s\<lparr> events := (events s)[r := ev'] \<rparr>,
              st)))"

section \<open>The query facade\<close>

text \<open>
  A value of type \<open>interface{}\<close> handed to the facade as \<open>variables\<close>: nil, a string, a
  number, a boolean, a struct with named (JSON-tagged) fields, or a value that
  \<open>json.Marshal\<close> rejects (a channel stands for these).
\<close>

datatype go_any =
    ANil
  | AString string
  | AInt int
  | ABool bool
  | AStruct "(string \<times> go_any) list"
  | AChan

text \<open>The structure of an encoded JSON text.\<close>

datatype json =
    JNull
  | JString string
  | JNumber int
  | JBool bool
  | JObject "(string \<times> json) list"

text \<open>
  \<open>json.Marshal\<close> of the standard library, up to the layout of the text: the JSON value
  that is encoded, or \<open>None\<close> when it returns an error (and no bytes).
\<close>

fun json_Marshal :: "go_any \<Rightarrow> json option"
  and marshal_fields :: "(string \<times> go_any) list \<Rightarrow> (string \<times> json) list option" where
  "json_Marshal ANil = Some JNull"
| "json_Marshal (AString x) = Some (JString x)"
| "json_Marshal (AInt i) = Some (JNumber i)"
| "json_Marshal (ABool b) = Some (JBool b)"
| "json_Marshal (AStruct fs) = map_option JObject (marshal_fields fs)"
| "json_Marshal AChan = None"
| "marshal_fields [] = Some []"
| "marshal_fields (kv # fs) =
     (case json_Marshal (snd kv) of
        None \<Rightarrow> None
      | Some j \<Rightarrow>
          (case marshal_fields fs of
             None \<Rightarrow> None
           | Some js \<Rightarrow> Some ((fst kv, j) # js)))"

text \<open>
  The request handed to \<open>httpClient.Do\<close>. The body is the encoded payload; \<open>None\<close> is the
  empty body that a nil byte slice gives.
\<close>

record http_request =
  req_method :: string
  req_url :: string
  req_headers :: "(string \<times> string) list"
  req_body :: "json option"

text \<open>Modelled from the spec: \<open>types.AbstractHttpResult\<close>, the decoded result envelope.\<close>

type_synonym abstract_http_result = json

text \<open>
  What the outside world does during one query: the results of \<open>http.NewRequest\<close>,
  \<open>httpClient.Do\<close> and \<open>ioutil.ReadAll\<close>, and the two text functions the facade calls.
  Modelled from the spec: \<open>removeFromJsonString\<close> is a function of this package that is
  not part of the source at hand (it strips a wrapping artifact from the raw text); it
  and the JSON decoder are taken as parameters.
\<close>

record http_env =
  newrequest_err :: "err option"
  do_err :: "err option"
  readall_err :: "err option"
  body_text :: string
  removeFromJsonString :: "string \<Rightarrow> string"
  json_Decode :: "string \<Rightarrow> err + abstract_http_result"

datatype http_action =
    HLog err
  | HDo http_request

text \<open>
  How a call ends: it returns a value, the process exits in \<open>log.Fatalln\<close>, a nil pointer
  is dereferenced, or the caller waits in a channel send.
\<close>

datatype 'a outcome = Ret 'a | Fatal err | Panic | Blocks

text \<open>The payload \<open>makeHttpRequest\<close> builds, with the error of the second \<open>Marshal\<close>.\<close>

definition request_payload :: "string \<Rightarrow> go_any \<Rightarrow> json option \<times> http_action list" where
  "request_payload query variables =
     (let payload = json_Marshal (AStruct [(''query'', AString query)])
      in if variables \<noteq> AString []
         then (case json_Marshal (AStruct [(''query'', AString query), (''variables'', variables)]) of
                 None \<Rightarrow> (None, [HLog ''json: unsupported type''])
               | Some p \<Rightarrow> (Some p, []))
         else (payload, []))"

definition makeHttpRequest ::
  "client \<Rightarrow> string \<Rightarrow> go_any \<Rightarrow> http_env \<Rightarrow> http_action list \<times> (string \<times> err option) outcome" where
  "makeHttpRequest c query variables env =
     (case request_payload query variables of (payload, logs) \<Rightarrow>
        (case newrequest_err env of
           Some er \<Rightarrow> (logs, Panic)
         | None \<Rightarrow>
             (let request = \<lparr> req_method = ''POST'', req_url = Endpoint c,
                               req_headers = [(''Content-Type'', ''application/json'')],
                               req_body = payload \<rparr>
              in case httpClient c of
                   None \<Rightarrow> (logs, Panic)
                 | Some cl \<Rightarrow>
                     (case do_err env of
                        Some er \<Rightarrow> (logs @ [HDo request, HLog er], Fatal er)
                      | None \<Rightarrow>
                          (case readall_err env of
                             Some er \<Rightarrow> (logs @ [HDo request, HLog er], Fatal er)
                           | None \<Rightarrow> (logs @ [HDo request], Ret (body_text env, None)))))))"

text \<open>
  A buffered channel of results: its capacity, the values waiting in it and whether it has
  been closed. A nil result pointer is \<open>None\<close>.
\<close>

record result_chan =
  capacity :: nat
  buffer :: "abstract_http_result option list"
  closed :: bool

text \<open>
  \<open>ch <- v\<close> with no receiver waiting: on a closed channel it panics, with room in the
  buffer it stores the value, otherwise it waits.
\<close>

definition chan_send :: "result_chan \<Rightarrow> abstract_http_result option \<Rightarrow> result_chan outcome" where
  "chan_send ch v =
     (if closed ch then Panic
      else if length (buffer ch) < capacity ch then Ret (ch\<lparr> buffer := buffer ch @ [v] \<rparr>)
      else Blocks)"

definition chan_close :: "result_chan \<Rightarrow> result_chan outcome" where
  "chan_close ch = (if closed ch then Panic else Ret (ch\<lparr> closed := True \<rparr>))"

text \<open>
  \<open>getResponse\<close>. The channel argument is \<open>None\<close> for a nil channel. The result is the log
  and requests, the channel afterwards, and the returned pair (result, error).
\<close>

definition getResponse ::
  "client \<Rightarrow> string \<Rightarrow> go_any \<Rightarrow> result_chan option \<Rightarrow> http_env \<Rightarrow>
   http_action list \<times> result_chan option \<times> (abstract_http_result option \<times> err option) outcome" where
  "getResponse c query variables ch env =
     (case makeHttpRequest c query variables env of
        (acts, Fatal er) \<Rightarrow> (acts, ch, Fatal er)
      | (acts, Panic) \<Rightarrow> (acts, ch, Panic)
      | (acts, Blocks) \<Rightarrow> (acts, ch, Blocks)
      | (acts, Ret (response, Some er)) \<Rightarrow>
          (case ch of
             None \<Rightarrow> (acts, None, Ret (None, Some er))
           | Some k \<Rightarrow>
               (case chan_send k None of
                  Ret k' \<Rightarrow> (acts, Some k', Ret (None, Some er))
                | Fatal x \<Rightarrow> (acts, ch, Fatal x)
                | Panic \<Rightarrow> (acts, ch, Panic)
                | Blocks \<Rightarrow> (acts, ch, Blocks)))
      | (acts, Ret (response, None)) \<Rightarrow>
          (case json_Decode env (removeFromJsonString env response) of
             Inl err2 \<Rightarrow>
               (case ch of
                  None \<Rightarrow> (acts @ [HLog err2], None, Ret (None, Some err2))
                | Some k \<Rightarrow>
                    (case chan_send k None of
                       Ret k' \<Rightarrow> (acts @ [HLog err2], Some k', Ret (None, Some err2))
                     | Fatal x \<Rightarrow> (acts, ch, Fatal x)
                     | Panic \<Rightarrow> (acts, ch, Panic)
                     | Blocks \<Rightarrow> (acts, ch, Blocks)))
           | Inr ds \<Rightarrow>
               (case ch of
                  None \<Rightarrow> (acts, None, Ret (Some ds, None))
                | Some k \<Rightarrow>
                    (case chan_send k (Some ds) of
                       Ret k' \<Rightarrow>
                         (case chan_close k' of
                            Ret k'' \<Rightarrow> (acts, Some k'', Ret (Some ds, None))
                          | Fatal x \<Rightarrow> (acts, Some k', Fatal x)
                          | Panic \<Rightarrow> (acts, Some k', Panic)
                          | Blocks \<Rightarrow> (acts, Some k', Blocks))
                     | Fatal x \<Rightarrow> (acts, ch, Fatal x)
                     | Panic \<Rightarrow> (acts, ch, Panic)
                     | Blocks \<Rightarrow> (acts, ch, Blocks)))))"

text \<open>
  \<open>getUniversalCh\<close> makes a channel of capacity one, starts \<open>getResponse\<close> on it in a
  goroutine and returns the channel. The model gives the channel as the goroutine leaves
  it (no receive has happened yet), with the goroutine's log and the way it ended.
\<close>

definition getUniversalCh ::
  "client \<Rightarrow> string \<Rightarrow> go_any \<Rightarrow> http_env \<Rightarrow>
   http_action list \<times> result_chan \<times> (abstract_http_result option \<times> err option) outcome" where
  "getUniversalCh c query variables env =
     (let ch = \<lparr> capacity = 1, buffer = [], closed = False \<rparr>
      in case getResponse c query variables (Some ch) env of
           (acts, Some ch', out) \<Rightarrow> (acts, ch', out)
         | (acts, None, out) \<Rightarrow> (acts, ch, out))"

definition getUniversal ::
  "client \<Rightarrow> string \<Rightarrow> go_any \<Rightarrow> http_env \<Rightarrow>
   http_action list \<times> (abstract_http_result option \<times> err option) outcome" where
  "getUniversal c query variables env =
     (case getResponse c query variables None env of (acts, ch, out) \<Rightarrow> (acts, out))"

section \<open>Concrete inputs\<close>

text \<open>
  A client for the endpoint \<open>http://localhost:3085/graphql\<close> with one registered event,
  as \<open>NewClient\<close> builds it for \<open>["NewBlock"]\<close>, and some behaviours of the outside world.
\<close>

definition example_docs :: query_docs where
  "example_docs = \<lparr> NewBlockSubscriptionQuery = ''subscription { newBlock }'',
                     SyncUpdateSubscriptionQuery = ''subscription { newSyncUpdate }'',
                     BlockConfirmationSubscriptionQuery = ''subscription { blockConfirmation }'' \<rparr>"

definition example_event :: event where
  "example_event = \<lparr> Response = 0, Type = ''NewBlock'', Query = ''subscription { newBlock }'',
                      Unsubscribe = 1, Subscribed = False, Count = 0 \<rparr>"

definition example_store :: store where
  "example_store = \<lparr> events = [example_event], chans = 2 \<rparr>"

definition example_client :: client where
  "example_client = \<lparr> SubscriptionEvents = [''NewBlock'' \<mapsto> 0],
                       httpClient = Some \<lparr> Timeout = 5 \<rparr>,
                       Endpoint = ''http://localhost:3085/graphql'',
                       hub = None \<rparr>"

definition env_ok :: cycle_env where
  "env_ok = \<lparr> unsubscribe_ready = False, ctx_done = False, pick = 0,
               dial_err = None, send_err = None, receive_err = None,
               received = \<lparr> resp_Type = ''data'', resp_rest = ''{newBlock}'' \<rparr>,
               response_taken = True, ack_taken = True \<rparr>"


definition env_receive_fails :: cycle_env where
  "env_receive_fails = env_ok\<lparr> receive_err := Some ''EOF'', received := zero_response \<rparr>"


definition env_unsubscribe :: cycle_env where
  "env_unsubscribe = env_ok\<lparr> unsubscribe_ready := True \<rparr>"

definition env_both_signalled :: cycle_env where
  "env_both_signalled = env_ok\<lparr> unsubscribe_ready := True, ctx_done := True, pick := 0 \<rparr>"

definition example_http_env :: http_env where
  "example_http_env = \<lparr> newrequest_err = None, do_err = None, readall_err = None,
                         body_text = ''{\"data\":{}}'',
                         removeFromJsonString = (\<lambda>t. t),
                         json_Decode = (\<lambda>t. if t = ''{\"data\":{}}''
                                             then Inr (JObject [(''data'', JObject [])])
                                             else Inl ''invalid character'') \<rparr>"

definition env_do_fails :: http_env where
  "env_do_fails = example_http_env\<lparr> do_err := Some ''connection refused'' \<rparr>"

definition env_decode_fails :: http_env where
  "env_decode_fails = example_http_env\<lparr> body_text := ''<html>'' \<rparr>"

section \<open>Properties of the engine's loop\<close>

text \<open>The client and the store of the examples are what \<open>NewClient\<close> builds.\<close>

lemma NewClient_example:
  "NewClient example_docs ''http://localhost:3085/graphql'' None [''NewBlock'']
     \<lparr> events = [], chans = 0 \<rparr> = (example_client, example_store)"
  by (simp add: NewClient_def createEvent_def Let_def map_index_def subscriptionEventsQueries_def
      example_docs_def example_client_def example_store_def example_event_def)

lemma nth_pair_mod:
  "[a, b] ! (n mod length [a, b]) = (if even n then a else b)"
proof (cases "even n")
  case True
  then have "n mod 2 = 0" by presburger
  then have "n mod Suc (Suc 0) = 0" by (simp add: numeral_2_eq_2)
  then show ?thesis using True by simp
next
  case False
  then have "n mod 2 = 1" by presburger
  then have "n mod Suc (Suc 0) = Suc 0" by (simp add: numeral_2_eq_2)
  then show ?thesis using False by simp
qed

lemma select_both:
  "unsubscribe_ready e \<Longrightarrow> ctx_done e \<Longrightarrow>
   select e = (if even (pick e) then CaseUnsubscribe else CaseCtxDone)"
  using nth_pair_mod [of CaseUnsubscribe CaseCtxDone "pick e"]
  by (simp add: select_def ready_cases_def)

lemma select_default_iff:
  "select e = CaseDefault \<longleftrightarrow> \<not> unsubscribe_ready e \<and> \<not> ctx_done e"
proof (cases "unsubscribe_ready e"; cases "ctx_done e")
  assume "unsubscribe_ready e" "ctx_done e"
  then show ?thesis using select_both [of e] by simp
qed (simp_all add: select_def ready_cases_def)

lemma select_unsubscribe_ready: "select e = CaseUnsubscribe \<Longrightarrow> unsubscribe_ready e"
  by (auto simp: select_def ready_cases_def split: if_splits)

lemma select_ctx_done: "select e = CaseCtxDone \<Longrightarrow> ctx_done e"
  by (auto simp: select_def ready_cases_def nth_Cons' split: if_splits)



lemma transport_cycle_event:
  "dial_err e = None \<Longrightarrow>
   fst (snd (transport_cycle c ev e)) = ev\<lparr> Subscribed := True, Count := Count ev + 1 \<rparr>"
  by (simp add: transport_cycle_def Let_def del: strings_Replace.simps)






lemma subscribe_loop_append:
  "subscribe_loop c ev pre = (acts, ev', Running) \<Longrightarrow>
   subscribe_loop c ev (pre @ rest) =
     (case subscribe_loop c ev' rest of (acts', ev'', st) \<Rightarrow> (acts @ acts', ev'', st))"
proof (induction pre arbitrary: ev acts)
  case Nil
  then show ?case by (simp split: prod.splits)
next
  case (Cons e pre)
  obtain a1 ev1 st1 where it: "subscribe_iter c ev e = (a1, ev1, st1)"
    by (cases "subscribe_iter c ev e") auto
  with Cons.prems have run: "st1 = Running" by (auto split: if_splits)
  obtain a2 ev2 st2 where lp: "subscribe_loop c ev1 pre = (a2, ev2, st2)"
    by (cases "subscribe_loop c ev1 pre") auto
  from Cons.prems it run lp have eq: "acts = a1 @ a2" "ev' = ev2" "st2 = Running" by auto
  from Cons.IH [of ev1 a2] lp eq
  have "subscribe_loop c ev1 (pre @ rest) =
          (case subscribe_loop c ev' rest of (acts', ev'', st) \<Rightarrow> (a2 @ acts', ev'', st))"
    by simp
  with it run eq show ?case by (simp split: prod.splits)
qed


section \<open>Properties of the query facade\<close>

lemma request_payload_empty:
  "request_payload query (AString []) = (Some (JObject [(''query'', JString query)]), [])"
  by (simp add: request_payload_def)

lemma request_payload_variables:
  "variables \<noteq> AString [] \<Longrightarrow> json_Marshal variables = Some jv \<Longrightarrow>
   request_payload query variables =
     (Some (JObject [(''query'', JString query), (''variables'', jv)]), [])"
  by (simp add: request_payload_def)

lemma makeHttpRequest_sends:
  "httpClient c = Some cl \<Longrightarrow> newrequest_err env = None \<Longrightarrow>
   request_payload query variables = (payload, []) \<Longrightarrow>
   \<exists>rest. fst (makeHttpRequest c query variables env) =
     HDo \<lparr> req_method = ''POST'', req_url = Endpoint c,
           req_headers = [(''Content-Type'', ''application/json'')],
           req_body = payload \<rparr> # rest"
  by (simp add: makeHttpRequest_def Let_def split: option.splits)

lemma getResponse_actions:
  "\<exists>extra. fst (getResponse c query variables ch env) =
     fst (makeHttpRequest c query variables env) @ extra"
  by (auto simp: getResponse_def split: prod.splits outcome.splits option.splits sum.splits)

lemma getUniversal_actions:
  "\<exists>extra. fst (getUniversal c query variables env) =
     fst (makeHttpRequest c query variables env) @ extra"
  using getResponse_actions [of c query variables None env]
  by (auto simp: getUniversal_def split: prod.splits)

lemma makeHttpRequest_outcome:
  "httpClient c = Some cl \<Longrightarrow> newrequest_err env = None \<Longrightarrow>
   snd (makeHttpRequest c query variables env) =
     (case do_err env of
        Some er \<Rightarrow> Fatal er
      | None \<Rightarrow> (case readall_err env of
                   Some er \<Rightarrow> Fatal er
                 | None \<Rightarrow> Ret (body_text env, None)))"
  by (simp add: makeHttpRequest_def Let_def split: prod.splits option.splits)

lemma getUniversalCh_capacity:
  "capacity (fst (snd (getUniversalCh c query variables env))) = 1 \<and>
   length (buffer (fst (snd (getUniversalCh c query variables env)))) \<le> 1"
  by (auto simp: getUniversalCh_def getResponse_def chan_send_def chan_close_def Let_def
      split: prod.splits outcome.splits option.splits sum.splits)

section \<open>The claims\<close>

subsection \<open>C1: transport errors and the ways the loop ends\<close>




subsection \<open>C2: what a failed round trip delivers\<close>

text \<open>
  Claim C2 says that the counter is incremented and a \<open>ResponseData\<close> is delivered if and
  only if the round trip succeeds. The engine logs an error of \<open>websocket.JSON.Receive\<close>
  and carries on with the iteration: with a receive that fails with \<open>EOF\<close> and leaves
  \<open>m\<close> at its zero value, the counter goes from 0 to 1 and a \<open>ResponseData\<close> holding the
  zero message is sent on the event's \<open>Response\<close> channel.
\<close>

theorem C2_failed_receive_is_delivered:
  "receive_err env_receive_fails = Some ''EOF'' \<and>
   subscribe_iter example_client example_event env_receive_fails =
     ([SignalNotify,
       Log (LogConnecting ''ws://localhost:3085/graphql''),
       Dial ''ws://localhost:3085/graphql'' ''http://localhost/'',
       Log (LogSubscriptionType ''NewBlock''),
       JSONSend (SubscribeDataQuery ''start'' ''1'' (SubscribeQuery ''subscription { newBlock }'')),
       JSONReceive,
       Log (LogReceiveError ''EOF''),
       ConnClose,
       Log (LogReceiveType []),
       ChanSendResponse 0 \<lparr> Host = ''http://localhost:3085/graphql'', rd_Type = ''NewBlock'',
                             Data = zero_response \<rparr>,
       Sleep 1],
      example_event\<lparr> Subscribed := True, Count := 1 \<rparr>,
      Running)"
  by (simp add: subscribe_iter_def transport_cycle_def select_def ready_cases_def Let_def
      env_receive_fails_def env_ok_def example_client_def example_event_def zero_response_def)

subsection \<open>C3: cancellation and unsubscription signalled together\<close>

text \<open>
  Claim C3 says that the cancellation case always wins when both \<open>ctx.Done()\<close> and
  \<open>event.Unsubscribe\<close> are ready. Go's \<open>select\<close> chooses among the ready cases without
  priority: with both ready and the runtime picking the first one, the engine runs the
  unsubscribe handshake and sends the acknowledgment.
\<close>

theorem C3_counterexample:
  "unsubscribe_ready env_both_signalled \<and> ctx_done env_both_signalled \<and>
   subscribe example_client example_store (Some 0) [env_both_signalled] =
     ([ChanReceiveBool 1,
       Log (LogUnsubscribed ''http://localhost:3085/graphql'' ''NewBlock''),
       ChanSendBool 1 True,
       Log (LogExitSubscription ''NewBlock'')],
      example_store,
      Returned)"
  by (simp add: subscribe_def subscribe_iter_def select_def ready_cases_def
      env_both_signalled_def env_ok_def example_client_def example_store_def example_event_def)

text \<open>
  Claim C3, amended. When both the context and the unsubscribe channel are ready at the
  start of an iteration, the engine runs no transport cycle in it and takes one of the two
  exits, as the runtime picks: the cancellation exit, where it returns at once with no
  action at all (no acknowledgment is sent), or the unsubscribe exit, where it logs and
  sends the acknowledgment, and returns once that is taken. The event is unchanged either
  way.
\<close>

theorem C3_both_signalled:
  "unsubscribe_ready e \<Longrightarrow> ctx_done e \<Longrightarrow>
   subscribe_iter c ev e =
     (if even (pick e)
      then ([ChanReceiveBool (Unsubscribe ev),
             Log (LogUnsubscribed (Endpoint c) (Type ev)),
             ChanSendBool (Unsubscribe ev) True],
            ev, if ack_taken e then Returned else Blocked)
      else ([], ev, Returned))"
  by (simp add: subscribe_iter_def select_both)

theorem C3_both_signalled_witness:
  "unsubscribe_ready (env_both_signalled\<lparr> pick := 1 \<rparr>) \<and>
   ctx_done (env_both_signalled\<lparr> pick := 1 \<rparr>) \<and>
   subscribe_iter example_client example_event (env_both_signalled\<lparr> pick := 1 \<rparr>) =
     ([], example_event, Returned) \<and>
   unsubscribe_ready env_both_signalled \<and> ctx_done env_both_signalled \<and>
   subscribe_iter example_client example_event env_both_signalled =
     ([ChanReceiveBool 1,
       Log (LogUnsubscribed ''http://localhost:3085/graphql'' ''NewBlock''),
       ChanSendBool 1 True],
      example_event, Returned)"
proof -
  have a: "unsubscribe_ready (env_both_signalled\<lparr> pick := 1 \<rparr>)" "ctx_done (env_both_signalled\<lparr> pick := 1 \<rparr>)"
    "unsubscribe_ready env_both_signalled" "ctx_done env_both_signalled"
    by (simp_all add: env_both_signalled_def env_ok_def)
  from C3_both_signalled [OF a(1) a(2), of example_client example_event]
       C3_both_signalled [OF a(3) a(4), of example_client example_event] a
  show ?thesis
    by (simp add: env_both_signalled_def env_ok_def example_client_def example_event_def)
qed

subsection \<open>C4: the channel of the asynchronous query\<close>

text \<open>
  Claim C4 says that the channel returned by \<open>getUniversalCh\<close> receives exactly one value,
  nil on an HTTP or decode failure, and is then closed. When \<open>httpClient.Do\<close> fails,
  \<open>makeHttpRequest\<close> ends the process in \<open>log.Fatalln\<close> and the channel has received
  nothing; when the body does not decode, the channel receives nil and is left open.
\<close>

theorem C4_counterexample:
  "do_err env_do_fails = Some ''connection refused'' \<and>
   snd (getUniversalCh example_client ''{ daemonStatus { numAccounts } }'' (AString []) env_do_fails) =
     (\<lparr> capacity = 1, buffer = [], closed = False \<rparr>, Fatal ''connection refused'') \<and>
   json_Decode env_decode_fails (removeFromJsonString env_decode_fails (body_text env_decode_fails)) =
     Inl ''invalid character'' \<and>
   snd (getUniversalCh example_client ''{ daemonStatus { numAccounts } }'' (AString []) env_decode_fails) =
     (\<lparr> capacity = 1, buffer = [None], closed = False \<rparr>, Ret (None, Some ''invalid character''))"
  by (simp add: getUniversalCh_def getResponse_def makeHttpRequest_def request_payload_def
      chan_send_def chan_close_def Let_def
      env_do_fails_def env_decode_fails_def example_http_env_def example_client_def)

text \<open>
  Claim C4, amended. The channel has capacity one and receives at most one value. For a
  client with an HTTP client and a request that can be built: when the HTTP exchange
  succeeds and the body decodes, the channel receives exactly one value, the decoded
  envelope, and is then closed; when the body does not decode, it receives exactly one
  value, nil; when the exchange fails (in \<open>Do\<close> or in reading the body), the process is
  halted by \<open>log.Fatalln\<close> and the channel has received nothing.
\<close>

theorem C4_one_shot_channel:
  assumes "httpClient c = Some cl" and "newrequest_err env = None"
  shows "capacity (fst (snd (getUniversalCh c query variables env))) = 1 \<and>
         length (buffer (fst (snd (getUniversalCh c query variables env)))) \<le> 1 \<and>
         (\<forall>ds. do_err env = None \<longrightarrow> readall_err env = None \<longrightarrow>
               json_Decode env (removeFromJsonString env (body_text env)) = Inr ds \<longrightarrow>
               snd (getUniversalCh c query variables env) =
                 (\<lparr> capacity = 1, buffer = [Some ds], closed = True \<rparr>, Ret (Some ds, None))) \<and>
         (\<forall>er. do_err env = None \<longrightarrow> readall_err env = None \<longrightarrow>
               json_Decode env (removeFromJsonString env (body_text env)) = Inl er \<longrightarrow>
               buffer (fst (snd (getUniversalCh c query variables env))) = [None] \<and>
               snd (snd (getUniversalCh c query variables env)) = Ret (None, Some er)) \<and>
         (\<forall>er. do_err env = Some er \<or> (do_err env = None \<and> readall_err env = Some er) \<longrightarrow>
               snd (getUniversalCh c query variables env) =
                 (\<lparr> capacity = 1, buffer = [], closed = False \<rparr>, Fatal er))"
proof -
  obtain acts out where m: "makeHttpRequest c query variables env = (acts, out)"
    by (cases "makeHttpRequest c query variables env") auto
  from makeHttpRequest_outcome [OF assms, of query variables] m
  have out: "out = (case do_err env of
        Some er \<Rightarrow> Fatal er
      | None \<Rightarrow> (case readall_err env of
                   Some er \<Rightarrow> Fatal er
                 | None \<Rightarrow> Ret (body_text env, None)))"
    by simp
  have ok: "\<forall>ds. do_err env = None \<longrightarrow> readall_err env = None \<longrightarrow>
               json_Decode env (removeFromJsonString env (body_text env)) = Inr ds \<longrightarrow>
               snd (getUniversalCh c query variables env) =
                 (\<lparr> capacity = 1, buffer = [Some ds], closed = True \<rparr>, Ret (Some ds, None))"
    using m out
    by (simp add: getUniversalCh_def getResponse_def chan_send_def chan_close_def Let_def)
  have dec: "\<forall>er. do_err env = None \<longrightarrow> readall_err env = None \<longrightarrow>
               json_Decode env (removeFromJsonString env (body_text env)) = Inl er \<longrightarrow>
               buffer (fst (snd (getUniversalCh c query variables env))) = [None] \<and>
               snd (snd (getUniversalCh c query variables env)) = Ret (None, Some er)"
    using m out
    by (simp add: getUniversalCh_def getResponse_def chan_send_def chan_close_def Let_def)
  have http: "\<forall>er. do_err env = Some er \<or> (do_err env = None \<and> readall_err env = Some er) \<longrightarrow>
               snd (getUniversalCh c query variables env) =
                 (\<lparr> capacity = 1, buffer = [], closed = False \<rparr>, Fatal er)"
    using m out
    by (auto simp: getUniversalCh_def getResponse_def chan_send_def chan_close_def Let_def)
  from getUniversalCh_capacity [of c query variables env] ok dec http
  show ?thesis by blast
qed

theorem C4_one_shot_channel_witness:
  "httpClient example_client = Some \<lparr> Timeout = 5 \<rparr> \<and> newrequest_err example_http_env = None \<and>
   do_err example_http_env = None \<and> readall_err example_http_env = None \<and>
   json_Decode example_http_env (removeFromJsonString example_http_env (body_text example_http_env)) =
     Inr (JObject [(''data'', JObject [])]) \<and>
   snd (getUniversalCh example_client ''{ daemonStatus { numAccounts } }'' (AString []) example_http_env) =
     (\<lparr> capacity = 1, buffer = [Some (JObject [(''data'', JObject [])])], closed = True \<rparr>,
      Ret (Some (JObject [(''data'', JObject [])]), None)) \<and>
   json_Decode env_decode_fails (removeFromJsonString env_decode_fails (body_text env_decode_fails)) =
     Inl ''invalid character'' \<and>
   buffer (fst (snd (getUniversalCh example_client ''{ daemonStatus { numAccounts } }'' (AString [])
                      env_decode_fails))) = [None] \<and>
   do_err env_do_fails = Some ''connection refused'' \<and>
   snd (getUniversalCh example_client ''{ daemonStatus { numAccounts } }'' (AString []) env_do_fails) =
     (\<lparr> capacity = 1, buffer = [], closed = False \<rparr>, Fatal ''connection refused'')"
proof -
  have a: "httpClient example_client = Some \<lparr> Timeout = 5 \<rparr>"
    by (simp add: example_client_def)
  have b: "newrequest_err example_http_env = None" "newrequest_err env_decode_fails = None"
    "newrequest_err env_do_fails = None"
    by (simp_all add: example_http_env_def env_decode_fails_def env_do_fails_def)
  have c: "do_err example_http_env = None" "readall_err example_http_env = None"
    "json_Decode example_http_env (removeFromJsonString example_http_env (body_text example_http_env)) =
       Inr (JObject [(''data'', JObject [])])"
    by (simp_all add: example_http_env_def)
  have d: "do_err env_decode_fails = None" "readall_err env_decode_fails = None"
    "json_Decode env_decode_fails (removeFromJsonString env_decode_fails (body_text env_decode_fails)) =
       Inl ''invalid character''"
    by (simp_all add: example_http_env_def env_decode_fails_def)
  have e: "do_err env_do_fails = Some ''connection refused''"
    by (simp add: example_http_env_def env_do_fails_def)
  from C4_one_shot_channel [OF a b(1), of "''{ daemonStatus { numAccounts } }''" "AString []"]
       C4_one_shot_channel [OF a b(2), of "''{ daemonStatus { numAccounts } }''" "AString []"]
       C4_one_shot_channel [OF a b(3), of "''{ daemonStatus { numAccounts } }''" "AString []"]
       a b c d e
  show ?thesis by simp
qed

subsection \<open>C5: the URL of the streaming transport\<close>

text \<open>
  Claim C5 says that only the scheme prefix of the endpoint is substituted. The engine
  calls \<open>strings.Replace\<close> with \<open>n = -1\<close>, which replaces every occurrence of \<open>http\<close>:
  for the endpoint \<open>http://httpbin.org/graphql\<close> it dials \<open>ws://wsbin.org/graphql\<close>, a
  different host, where the claim gives \<open>ws://httpbin.org/graphql\<close> (which is what
  \<open>n = 1\<close> returns).
\<close>

theorem C5_failing_endpoint:
  "strings_Replace ''http://httpbin.org/graphql'' ''http'' ''ws'' (- 1) = ''ws://wsbin.org/graphql'' \<and>
   strings_Replace ''http://httpbin.org/graphql'' ''http'' ''ws'' 1 = ''ws://httpbin.org/graphql'' \<and>
   Dial ''ws://wsbin.org/graphql'' ''http://localhost/'' \<in>
     set (fst (transport_cycle (example_client\<lparr> Endpoint := ''http://httpbin.org/graphql'' \<rparr>)
                 example_event env_ok))"
  by (simp add: transport_cycle_def Let_def example_client_def env_ok_def)

subsection \<open>C6: the unsubscribe handshake\<close>

text \<open>
  Claim C6. After any number of iterations that left the engine running, an iteration in
  which the engine receives a value on \<open>event.Unsubscribe\<close> logs the unsubscription and
  sends one acknowledgment on the same channel; when the acknowledgment is taken (the
  channel is unbuffered, the caller has to receive it), \<open>subscribe\<close> returns. Whatever the
  outside world would do afterwards (the rest \<open>es\<close> of the schedule), nothing more is
  delivered and the event, with its counter, is as the earlier iterations left it.
\<close>

theorem C6_unsubscribe_handshake:
  assumes "r < length (events s)"
    and "subscribe_loop c (events s ! r) pre = (acts, ev', Running)"
    and "select e = CaseUnsubscribe"
    and "ack_taken e"
  shows "subscribe c s (Some r) (pre @ e # es) =
           (acts @ [ChanReceiveBool (Unsubscribe ev'),
                    Log (LogUnsubscribed (Endpoint c) (Type ev')),
                    ChanSendBool (Unsubscribe ev') True,
                    Log (LogExitSubscription (Type ev'))],
            s\<lparr> events := (events s)[r := ev'] \<rparr>,
            Returned)"
proof -
  have "subscribe_loop c ev' (e # es) =
          ([ChanReceiveBool (Unsubscribe ev'),
            Log (LogUnsubscribed (Endpoint c) (Type ev')),
            ChanSendBool (Unsubscribe ev') True], ev', Returned)"
    using assms(3,4) by (simp add: subscribe_iter_def)
  with subscribe_loop_append [OF assms(2), of "e # es"]
  have "subscribe_loop c (events s ! r) (pre @ e # es) =
          (acts @ [ChanReceiveBool (Unsubscribe ev'),
            Log (LogUnsubscribed (Endpoint c) (Type ev')),
            ChanSendBool (Unsubscribe ev') True], ev', Returned)"
    by simp
  then show ?thesis by (simp add: subscribe_def)
qed

theorem C6_unsubscribe_handshake_witness:
  "(0::nat) < length (events example_store) \<and>
   select env_unsubscribe = CaseUnsubscribe \<and> ack_taken env_unsubscribe \<and>
   subscribe example_client example_store (Some 0) ([env_ok] @ env_unsubscribe # [env_ok, env_ok]) =
     ([SignalNotify,
       Log (LogConnecting ''ws://localhost:3085/graphql''),
       Dial ''ws://localhost:3085/graphql'' ''http://localhost/'',
       Log (LogSubscriptionType ''NewBlock''),
       JSONSend (SubscribeDataQuery ''start'' ''1'' (SubscribeQuery ''subscription { newBlock }'')),
       JSONReceive,
       ConnClose,
       Log (LogReceiveType ''data''),
       ChanSendResponse 0 \<lparr> Host = ''http://localhost:3085/graphql'', rd_Type = ''NewBlock'',
                             Data = \<lparr> resp_Type = ''data'', resp_rest = ''{newBlock}'' \<rparr> \<rparr>,
       Sleep 1,
       ChanReceiveBool 1,
       Log (LogUnsubscribed ''http://localhost:3085/graphql'' ''NewBlock''),
       ChanSendBool 1 True,
       Log (LogExitSubscription ''NewBlock'')],
      \<lparr> events = [example_event\<lparr> Subscribed := True, Count := 1 \<rparr>], chans = 2 \<rparr>,
      Returned)"
proof -
  have a: "(0::nat) < length (events example_store)"
    by (simp add: example_store_def)
  have b: "subscribe_loop example_client (events example_store ! 0) [env_ok] =
     ([SignalNotify,
       Log (LogConnecting ''ws://localhost:3085/graphql''),
       Dial ''ws://localhost:3085/graphql'' ''http://localhost/'',
       Log (LogSubscriptionType ''NewBlock''),
       JSONSend (SubscribeDataQuery ''start'' ''1'' (SubscribeQuery ''subscription { newBlock }'')),
       JSONReceive,
       ConnClose,
       Log (LogReceiveType ''data''),
       ChanSendResponse 0 \<lparr> Host = ''http://localhost:3085/graphql'', rd_Type = ''NewBlock'',
                             Data = \<lparr> resp_Type = ''data'', resp_rest = ''{newBlock}'' \<rparr> \<rparr>,
       Sleep 1],
      example_event\<lparr> Subscribed := True, Count := 1 \<rparr>, Running)"
    by (simp add: subscribe_iter_def transport_cycle_def select_def ready_cases_def Let_def
        env_ok_def example_client_def example_store_def example_event_def)
  have c: "select env_unsubscribe = CaseUnsubscribe"
    by (simp add: select_def ready_cases_def env_unsubscribe_def env_ok_def)
  have d: "ack_taken env_unsubscribe"
    by (simp add: env_unsubscribe_def env_ok_def)
  from C6_unsubscribe_handshake [OF a b c d, of "[env_ok, env_ok]"] a c d
  show ?thesis
    by (simp add: example_client_def example_store_def example_event_def)
qed

subsection \<open>C7: the registry lookup\<close>

text \<open>
  Claim C7. \<open>getEvent\<close> returns the registered event for \<open>t\<close> and changes nothing when
  there is one. Otherwise it allocates a new event (at an address that was not in use, on
  two new channels), with counter zero, not subscribed, with the query document that
  \<open>subscriptionEventsQueries\<close> gives for \<open>t\<close>, registers it under \<open>t\<close> and returns it.
  A second lookup of \<open>t\<close> returns the same address and changes nothing.
\<close>

theorem C7_getEvent:
  "(\<forall>r. SubscriptionEvents c t = Some r \<longrightarrow> getEvent q t (c, s) = (r, c, s)) \<and>
   (SubscriptionEvents c t = None \<longrightarrow>
      getEvent q t (c, s) =
        (length (events s),
         c\<lparr> SubscriptionEvents := (SubscriptionEvents c)(t \<mapsto> length (events s)) \<rparr>,
         s\<lparr> events := events s @
               [\<lparr> Response = chans s, Type = t,
                  Query = map_index (subscriptionEventsQueries q) t,
                  Unsubscribe = chans s + 1, Subscribed = False, Count = 0 \<rparr>],
            chans := chans s + 2 \<rparr>)) \<and>
   (\<forall>r c' s'. getEvent q t (c, s) = (r, c', s') \<longrightarrow> getEvent q t (c', s') = (r, c', s'))"
  by (auto simp: getEvent_def createEvent_def Let_def split: option.splits)

theorem C7_getEvent_witness:
  "SubscriptionEvents example_client ''NewBlock'' = Some 0 \<and>
   getEvent example_docs ''NewBlock'' (example_client, example_store) = (0, example_client, example_store) \<and>
   SubscriptionEvents example_client ''SyncUpdate'' = None \<and>
   getEvent example_docs ''SyncUpdate'' (example_client, example_store) =
     (1,
      example_client\<lparr> SubscriptionEvents := [''NewBlock'' \<mapsto> 0, ''SyncUpdate'' \<mapsto> 1] \<rparr>,
      \<lparr> events = [example_event,
                   \<lparr> Response = 2, Type = ''SyncUpdate'', Query = ''subscription { newSyncUpdate }'',
                     Unsubscribe = 3, Subscribed = False, Count = 0 \<rparr>],
        chans = 4 \<rparr>) \<and>
   getEvent example_docs ''SyncUpdate''
     (example_client\<lparr> SubscriptionEvents := [''NewBlock'' \<mapsto> 0, ''SyncUpdate'' \<mapsto> 1] \<rparr>,
      \<lparr> events = [example_event,
                   \<lparr> Response = 2, Type = ''SyncUpdate'', Query = ''subscription { newSyncUpdate }'',
                     Unsubscribe = 3, Subscribed = False, Count = 0 \<rparr>],
        chans = 4 \<rparr>) =
     (1,
      example_client\<lparr> SubscriptionEvents := [''NewBlock'' \<mapsto> 0, ''SyncUpdate'' \<mapsto> 1] \<rparr>,
      \<lparr> events = [example_event,
                   \<lparr> Response = 2, Type = ''SyncUpdate'', Query = ''subscription { newSyncUpdate }'',
                     Unsubscribe = 3, Subscribed = False, Count = 0 \<rparr>],
        chans = 4 \<rparr>)"
proof -
  have a: "SubscriptionEvents example_client ''NewBlock'' = Some 0"
    "SubscriptionEvents example_client ''SyncUpdate'' = None"
    by (simp_all add: example_client_def)
  have b: "getEvent example_docs ''NewBlock'' (example_client, example_store) =
             (0, example_client, example_store)"
    using C7_getEvent [of example_client "''NewBlock''" example_docs example_store] a(1) by simp
  have c: "getEvent example_docs ''SyncUpdate'' (example_client, example_store) =
     (1,
      example_client\<lparr> SubscriptionEvents := [''NewBlock'' \<mapsto> 0, ''SyncUpdate'' \<mapsto> 1] \<rparr>,
      \<lparr> events = [example_event,
                   \<lparr> Response = 2, Type = ''SyncUpdate'', Query = ''subscription { newSyncUpdate }'',
                     Unsubscribe = 3, Subscribed = False, Count = 0 \<rparr>],
        chans = 4 \<rparr>)"
    using C7_getEvent [of example_client "''SyncUpdate''" example_docs example_store] a(2)
    by (simp add: example_store_def example_client_def map_index_def subscriptionEventsQueries_def
        example_docs_def)
  from C7_getEvent [of example_client "''SyncUpdate''" example_docs example_store] c
  have d: "getEvent example_docs ''SyncUpdate''
     (example_client\<lparr> SubscriptionEvents := [''NewBlock'' \<mapsto> 0, ''SyncUpdate'' \<mapsto> 1] \<rparr>,
      \<lparr> events = [example_event,
                   \<lparr> Response = 2, Type = ''SyncUpdate'', Query = ''subscription { newSyncUpdate }'',
                     Unsubscribe = 3, Subscribed = False, Count = 0 \<rparr>],
        chans = 4 \<rparr>) =
     (1,
      example_client\<lparr> SubscriptionEvents := [''NewBlock'' \<mapsto> 0, ''SyncUpdate'' \<mapsto> 1] \<rparr>,
      \<lparr> events = [example_event,
                   \<lparr> Response = 2, Type = ''SyncUpdate'', Query = ''subscription { newSyncUpdate }'',
                     Unsubscribe = 3, Subscribed = False, Count = 0 \<rparr>],
        chans = 4 \<rparr>)"
    by blast
  from a b c d show ?thesis by blast
qed

subsection \<open>C8: a nil event\<close>

text \<open>
  Claim C8. \<open>subscribe\<close> with a nil event returns (it does not panic or wait), whatever the
  outside world does: the log has exactly one entry, nothing is sent on any channel and
  the store is unchanged.
\<close>

theorem C8_nil_event:
  "subscribe c s None envs = ([Log LogEventNil], s, Returned)"
  by (simp add: subscribe_def)

subsection \<open>C9: the body of the HTTP request\<close>

text \<open>
  Claim C9. For a client with an HTTP client and a request that can be built, the first
  thing the facade does is to send one POST request. When \<open>variables\<close> is empty (the empty
  string, which is what \<open>variables != ""\<close> tests and what every caller without variables
  passes) its body is the object with the single field \<open>query\<close>. Otherwise, for variables
  that \<open>json.Marshal\<close> encodes, the body is the object with the fields \<open>query\<close> and
  \<open>variables\<close>.
\<close>

theorem C9_request_body:
  assumes "httpClient c = Some cl" and "newrequest_err env = None"
  shows "(variables = AString [] \<longrightarrow>
            (\<exists>rest. fst (getUniversal c query variables env) =
               HDo \<lparr> req_method = ''POST'', req_url = Endpoint c,
                     req_headers = [(''Content-Type'', ''application/json'')],
                     req_body = Some (JObject [(''query'', JString query)]) \<rparr> # rest)) \<and>
         (\<forall>jv. variables \<noteq> AString [] \<longrightarrow> json_Marshal variables = Some jv \<longrightarrow>
            (\<exists>rest. fst (getUniversal c query variables env) =
               HDo \<lparr> req_method = ''POST'', req_url = Endpoint c,
                     req_headers = [(''Content-Type'', ''application/json'')],
                     req_body = Some (JObject [(''query'', JString query), (''variables'', jv)]) \<rparr> # rest))"
proof (intro conjI allI impI)
  assume "variables = AString []"
  then have "request_payload query variables = (Some (JObject [(''query'', JString query)]), [])"
    by (simp add: request_payload_empty)
  from makeHttpRequest_sends [OF assms this] getUniversal_actions [of c query variables env]
  show "\<exists>rest. fst (getUniversal c query variables env) =
               HDo \<lparr> req_method = ''POST'', req_url = Endpoint c,
                     req_headers = [(''Content-Type'', ''application/json'')],
                     req_body = Some (JObject [(''query'', JString query)]) \<rparr> # rest"
    by auto
next
  fix jv
  assume "variables \<noteq> AString []" "json_Marshal variables = Some jv"
  then have "request_payload query variables =
     (Some (JObject [(''query'', JString query), (''variables'', jv)]), [])"
    by (rule request_payload_variables)
  from makeHttpRequest_sends [OF assms this] getUniversal_actions [of c query variables env]
  show "\<exists>rest. fst (getUniversal c query variables env) =
               HDo \<lparr> req_method = ''POST'', req_url = Endpoint c,
                     req_headers = [(''Content-Type'', ''application/json'')],
                     req_body = Some (JObject [(''query'', JString query), (''variables'', jv)]) \<rparr> # rest"
    by auto
qed

theorem C9_request_body_witness:
  "httpClient example_client = Some \<lparr> Timeout = 5 \<rparr> \<and> newrequest_err example_http_env = None \<and>
   (\<exists>rest. fst (getUniversal example_client ''{ daemonStatus { numAccounts } }'' (AString []) example_http_env) =
      HDo \<lparr> req_method = ''POST'', req_url = ''http://localhost:3085/graphql'',
            req_headers = [(''Content-Type'', ''application/json'')],
            req_body = Some (JObject [(''query'', JString ''{ daemonStatus { numAccounts } }'')]) \<rparr> # rest) \<and>
   AStruct [(''publicKey'', AString ''pk'')] \<noteq> AString [] \<and>
   json_Marshal (AStruct [(''publicKey'', AString ''pk'')]) = Some (JObject [(''publicKey'', JString ''pk'')]) \<and>
   (\<exists>rest. fst (getUniversal example_client ''query wallet'' (AStruct [(''publicKey'', AString ''pk'')]) example_http_env) =
      HDo \<lparr> req_method = ''POST'', req_url = ''http://localhost:3085/graphql'',
            req_headers = [(''Content-Type'', ''application/json'')],
            req_body = Some (JObject [(''query'', JString ''query wallet''),
                                      (''variables'', JObject [(''publicKey'', JString ''pk'')])]) \<rparr> # rest)"
proof -
  have a: "httpClient example_client = Some \<lparr> Timeout = 5 \<rparr>"
    by (simp add: example_client_def)
  have b: "newrequest_err example_http_env = None"
    by (simp add: example_http_env_def)
  have c: "json_Marshal (AStruct [(''publicKey'', AString ''pk'')]) = Some (JObject [(''publicKey'', JString ''pk'')])"
    by simp
  have d: "Endpoint example_client = ''http://localhost:3085/graphql''"
    by (simp add: example_client_def)
  from C9_request_body [OF a b, of "AString []" "''{ daemonStatus { numAccounts } }''"]
       C9_request_body [OF a b, of "AStruct [(''publicKey'', AString ''pk'')]" "''query wallet''"]
       a b c d
  show ?thesis by simp
qed

subsection \<open>C10: type names without a query document\<close>

text \<open>
  Claim C10. For a type name \<open>t\<close> other than \<open>NewBlock\<close>, \<open>SyncUpdate\<close> and
  \<open>BlockConfirmation\<close> that is not registered yet, \<open>getEvent\<close> creates, registers and
  returns a new event whose query document is the empty string; a subscription started on
  it sends a start message with an empty query in every iteration that opens a
  connection.
\<close>

theorem C10_unknown_type:
  assumes "t \<notin> {''NewBlock'', ''SyncUpdate'', ''BlockConfirmation''}"
    and "SubscriptionEvents c t = None"
  shows "\<exists>c' s'.
           getEvent q t (c, s) = (length (events s), c', s') \<and>
           SubscriptionEvents c' t = Some (length (events s)) \<and>
           events s' = events s @
             [\<lparr> Response = chans s, Type = t, Query = [], Unsubscribe = chans s + 1,
                Subscribed = False, Count = 0 \<rparr>] \<and>
           (\<forall>e. select e = CaseDefault \<longrightarrow> dial_err e = None \<longrightarrow>
                JSONSend (SubscribeDataQuery ''start'' ''1'' (SubscribeQuery [])) \<in>
                  set (fst (subscribe c' s' (Some (length (events s))) [e])))"
proof -
  from assms(1) have q: "map_index (subscriptionEventsQueries q) t = []"
    by (simp add: map_index_def subscriptionEventsQueries_def)
  let ?ev = "\<lparr> Response = chans s, Type = t, Query = [], Unsubscribe = chans s + 1,
                Subscribed = False, Count = 0 \<rparr>"
  let ?c' = "c\<lparr> SubscriptionEvents := (SubscriptionEvents c)(t \<mapsto> length (events s)) \<rparr>"
  let ?s' = "s\<lparr> events := events s @ [?ev], chans := chans s + 2 \<rparr>"
  have g: "getEvent q t (c, s) = (length (events s), ?c', ?s')"
    using assms(2) q by (simp add: getEvent_def createEvent_def Let_def)
  have sends: "JSONSend (SubscribeDataQuery ''start'' ''1'' (SubscribeQuery [])) \<in>
                  set (fst (subscribe ?c' ?s' (Some (length (events s))) [e]))"
    if "select e = CaseDefault" "dial_err e = None" for e
    using that
    by (simp add: subscribe_def subscribe_iter_def transport_cycle_def Let_def
        split: prod.splits del: strings_Replace.simps)
  from g sends show ?thesis by auto
qed

theorem C10_unknown_type_witness:
  "''Mempool'' \<notin> {''NewBlock'', ''SyncUpdate'', ''BlockConfirmation''} \<and>
   SubscriptionEvents example_client ''Mempool'' = None \<and>
   select env_ok = CaseDefault \<and> dial_err env_ok = None \<and>
   (\<exists>c' s'.
      getEvent example_docs ''Mempool'' (example_client, example_store) = (1, c', s') \<and>
      SubscriptionEvents c' ''Mempool'' = Some 1 \<and>
      events s' = [example_event,
                   \<lparr> Response = 2, Type = ''Mempool'', Query = [], Unsubscribe = 3,
                     Subscribed = False, Count = 0 \<rparr>] \<and>
      JSONSend (SubscribeDataQuery ''start'' ''1'' (SubscribeQuery [])) \<in>
        set (fst (subscribe c' s' (Some 1) [env_ok])))"
proof -
  have a: "''Mempool'' \<notin> {''NewBlock'', ''SyncUpdate'', ''BlockConfirmation''}"
    by simp
  have b: "SubscriptionEvents example_client ''Mempool'' = None"
    by (simp add: example_client_def)
  have c: "select env_ok = CaseDefault" "dial_err env_ok = None"
    by (simp_all add: select_def ready_cases_def env_ok_def)
  have d: "events example_store = [example_event]" "chans example_store = 2"
    by (simp_all add: example_store_def)
  from C10_unknown_type [OF a b, of example_docs example_store] a b c d
  show ?thesis by auto
qed

end
